theory Spec2Isabelle
  imports Main "HOL-Library.Word" "HOL-Library.Sublist"
begin

unbundle bit_operations_syntax

section \<open>Errors\<close>

text \<open>
  The error values the operations of package \<open>infra\<close> can hand to their caller:
  the package's own sentinel \<open>ErrSecretNotFound\<close>, the \<open>*os.PathError\<close> and
  \<open>*os.SyscallError\<close> values of the Go library (operation, path, error number), and a
  run-time panic.
\<close>

datatype errno = ENOENT | EACCES | EISDIR | ENOTDIR | EINVAL

datatype error =
    ErrSecretNotFound
  | PathError string string errno
  | SyscallError string errno
  | Panic string

section \<open>Paths: \<open>path/filepath\<close> on a Unix target\<close>

text \<open>\<open>strings.Split(s, "/")\<close>: the pieces between separators, empty pieces kept.\<close>

fun splitSep :: "string \<Rightarrow> string list" where
  "splitSep [] = [[]]"
| "splitSep (c # cs) =
     (if c = CHR ''/'' then [] # splitSep cs
      else (case splitSep cs of [] \<Rightarrow> [[c]] | x # xs \<Rightarrow> (c # x) # xs))"

text \<open>\<open>strings.Join(xs, "/")\<close>.\<close>

fun joinSep :: "string list \<Rightarrow> string" where
  "joinSep [] = []"
| "joinSep [x] = x"
| "joinSep (x # y # ys) = x @ CHR ''/'' # joinSep (y # ys)"

text \<open>
  The element loop of \<open>filepath.Clean\<close>: empty elements and \<open>.\<close> are dropped, \<open>..\<close>
  removes the element before it, is dropped at the root of a rooted path and is kept at
  the front of a relative one. The stack \<open>acc\<close> holds the kept elements, last one first.
\<close>

definition clean_step :: "bool \<Rightarrow> string list \<Rightarrow> string \<Rightarrow> string list" where
  "clean_step rooted acc c =
     (if c = [] \<or> c = ''.'' then acc
      else if c = ''..'' then
        (case acc of
           [] \<Rightarrow> if rooted then [] else [''..'']
         | a # as \<Rightarrow> if a = ''..'' then ''..'' # a # as else as)
      else c # acc)"

definition clean_elems :: "bool \<Rightarrow> string list \<Rightarrow> string list" where
  "clean_elems rooted cs = rev (foldl (clean_step rooted) [] cs)"

definition IsAbs :: "string \<Rightarrow> bool" where
  "IsAbs p = (case p of [] \<Rightarrow> False | c # _ \<Rightarrow> c = CHR ''/'')"

definition Clean :: "string \<Rightarrow> string" where
  "Clean p =
     (if p = [] then ''.''
      else if IsAbs p then CHR ''/'' # joinSep (clean_elems True (splitSep p))
      else (case clean_elems False (splitSep p) of [] \<Rightarrow> ''.'' | c # cs \<Rightarrow> joinSep (c # cs)))"

text \<open>
  \<open>filepath.Join(a, b)\<close>: the elements from the first non-empty one on are joined with
  the separator and cleaned; the result is empty when both are.
\<close>

definition Join :: "string \<Rightarrow> string \<Rightarrow> string" where
  "Join a b =
     (if a \<noteq> [] then Clean (a @ CHR ''/'' # b)
      else if b \<noteq> [] then Clean b
      else [])"

section \<open>The process environment: file system, working directory, heap\<close>

type_synonym FileMode = "32 word"
type_synonym bytes = string
type_synonym key = "string list"

text \<open>
  A file-system entry is a regular file (content and permission bits) or a directory
  (permission bits). The tree is a map from the list of path elements below the root to
  the entry there; the root itself is always a directory.
\<close>

datatype node = File bytes FileMode | Dir FileMode

text \<open>
  Modelled from the spec: the stored secret types \<open>secretStruct\<close>, \<open>secretText\<close>,
  \<open>secretSSHWithPrivate\<close> and \<open>secretUserPassword\<close> and their \<open>GetType\<close> methods are
  declared in a file of package \<open>infra\<close> that is not among the sources. The spec gives
  a tagged union with exactly three variants: Text (text value), SSHPrivateKey (user,
  private-key material, passphrase) and UserPassword (user, password); the field names are
  the ones the struct literals of the \<open>Add\<close> methods use, and the tags are the ones the
  type switch of \<open>GetSecret\<close> pairs with each type assertion.
\<close>

datatype secretStruct =
    secretText string
  | secretSSHWithPrivate string string string
  | secretUserPassword string string

fun GetType_secret :: "secretStruct \<Rightarrow> string" where
  "GetType_secret (secretText t) = ''text''"
| "GetType_secret (secretSSHWithPrivate u k p) = ''ssh''"
| "GetType_secret (secretUserPassword u p) = ''userpass''"

text \<open>
  The world a session runs in: the file tree, the working directory (\<open>None\<close> when
  \<open>os.Getwd\<close> fails), the process's umask, whether it runs as the superuser, and the heap
  of Go maps (a map value is a reference; an address without an entry is the nil map).
  Every file is taken to be owned by the process's user, and directories to be searchable
  and writable by it.
\<close>

record world =
  fs :: "key \<rightharpoonup> node"
  cwd :: "key option"
  umask :: FileMode
  euid_root :: bool
  heap :: "nat \<rightharpoonup> (string \<rightharpoonup> secretStruct)"
  next_ref :: nat

definition lookup :: "world \<Rightarrow> key \<Rightarrow> node option" where
  "lookup w k = (if k = [] then Some (Dir 493) else fs w k)"

definition Getwd :: "world \<Rightarrow> error + string" where
  "Getwd w =
     (case cwd w of
        None \<Rightarrow> Inl (SyscallError ''getwd'' ENOENT)
      | Some cs \<Rightarrow> Inr (CHR ''/'' # joinSep cs))"

text \<open>\<open>filepath.Abs\<close>: an absolute path is cleaned, a relative one joined to the working directory.\<close>

definition Abs :: "string \<Rightarrow> world \<Rightarrow> error + string" where
  "Abs p w =
     (if IsAbs p then Inr (Clean p)
      else (case Getwd w of Inl e \<Rightarrow> Inl e | Inr wd \<Rightarrow> Inr (Join wd p)))"

text \<open>
  The entry a path names for the kernel: the elements of the path, taken from the root
  for an absolute path and from the working directory otherwise, with \<open>.\<close> and \<open>..\<close>
  resolved. The empty path names nothing.
\<close>

definition components :: "string \<Rightarrow> key" where
  "components p = clean_elems True (splitSep p)"

definition resolve :: "world \<Rightarrow> string \<Rightarrow> key option" where
  "resolve w p =
     (if p = [] then None
      else if IsAbs p then Some (components p)
      else (case Getwd w of
              Inl e \<Rightarrow> None
            | Inr wd \<Rightarrow> Some (components (wd @ CHR ''/'' # p))))"

text \<open>
  Modes are numbers, written in decimal here: \<open>0777\<close> is 511, \<open>0755\<close> is 493, \<open>0700\<close> is
  448, \<open>0644\<close> is 420, \<open>0600\<close> is 384, \<open>0400\<close> is 256, \<open>0200\<close> is 128, \<open>0130\<close> is 88,
  \<open>0110\<close> is 72, \<open>0077\<close> is 63 and \<open>0022\<close> is 18.

  \<open>syscallMode\<close> of package \<open>os\<close>: the nine permission bits of a \<open>FileMode\<close>, and the
  setuid, setgid and sticky bits where the \<open>FileMode\<close> flags \<open>ModeSetuid\<close> (bit 23),
  \<open>ModeSetgid\<close> (bit 22) and \<open>ModeSticky\<close> (bit 20) are set.
\<close>

definition syscallMode :: "FileMode \<Rightarrow> FileMode" where
  "syscallMode i =
     (i AND 511)
       OR (if i AND push_bit 23 1 \<noteq> 0 then 2048 else 0)
       OR (if i AND push_bit 22 1 \<noteq> 0 then 1024 else 0)
       OR (if i AND push_bit 20 1 \<noteq> 0 then 512 else 0)"

definition may_read :: "world \<Rightarrow> FileMode \<Rightarrow> bool" where
  "may_read w m = (euid_root w \<or> m AND 256 \<noteq> 0)"

definition may_write :: "world \<Rightarrow> FileMode \<Rightarrow> bool" where
  "may_write w m = (euid_root w \<or> m AND 128 \<noteq> 0)"

text \<open>No permission bit of the group or of others is set (mask \<open>0077\<close>).\<close>

definition owner_only :: "FileMode \<Rightarrow> bool" where
  "owner_only m = (m AND 63 = 0)"

text \<open>The entry at a path, if the path resolves and something is there.\<close>

definition entry :: "world \<Rightarrow> string \<Rightarrow> node option" where
  "entry w p = (case resolve w p of None \<Rightarrow> None | Some k \<Rightarrow> lookup w k)"

definition Stat :: "world \<Rightarrow> string \<Rightarrow> error + node" where
  "Stat w p =
     (case entry w p of
        None \<Rightarrow> Inl (PathError ''stat'' p ENOENT)
      | Some n \<Rightarrow> Inr n)"

text \<open>
  \<open>ioutil.ReadFile\<close>: the open fails on a missing entry or a file the process may not
  read; reading a directory fails with \<open>EISDIR\<close>.
\<close>

definition ReadFile :: "world \<Rightarrow> string \<Rightarrow> error + bytes" where
  "ReadFile w p =
     (case entry w p of
        None \<Rightarrow> Inl (PathError ''open'' p ENOENT)
      | Some (Dir m) \<Rightarrow> Inl (PathError ''read'' p EISDIR)
      | Some (File c m) \<Rightarrow>
          if may_read w m then Inr c else Inl (PathError ''open'' p EACCES))"

text \<open>
  \<open>ioutil.WriteFile\<close> opens with \<open>O_WRONLY|O_CREATE|O_TRUNC\<close>: an existing file is
  truncated and keeps its mode; a new one gets the permission bits of \<open>perm\<close> less the
  umask.
\<close>

definition WriteFile :: "string \<Rightarrow> bytes \<Rightarrow> FileMode \<Rightarrow> world \<Rightarrow> error option \<times> world" where
  "WriteFile p data perm w =
     (case resolve w p of
        None \<Rightarrow> (Some (PathError ''open'' p ENOENT), w)
      | Some k \<Rightarrow>
          (case lookup w k of
             Some (Dir m) \<Rightarrow> (Some (PathError ''open'' p EISDIR), w)
           | Some (File c m) \<Rightarrow>
               if may_write w m then (None, w\<lparr>fs := (fs w)(k \<mapsto> File data m)\<rparr>)
               else (Some (PathError ''open'' p EACCES), w)
           | None \<Rightarrow>
               (case lookup w (butlast k) of
                  None \<Rightarrow> (Some (PathError ''open'' p ENOENT), w)
                | Some (File c m) \<Rightarrow> (Some (PathError ''open'' p ENOTDIR), w)
                | Some (Dir m) \<Rightarrow>
                    (None, w\<lparr>fs := (fs w)(k \<mapsto> File data (syscallMode perm AND NOT (umask w)))\<rparr>))))"

definition endsWithDot :: "string \<Rightarrow> bool" where
  "endsWithDot p = (p = ''.'' \<or> suffix ''/.'' p)"

text \<open>
  \<open>os.RemoveAll\<close>: nothing to do for the empty path, \<open>EINVAL\<close> for a path whose last
  element is \<open>.\<close>, otherwise the entry and everything below it are removed; an entry that
  does not exist is not an error.
\<close>

definition RemoveAll :: "string \<Rightarrow> world \<Rightarrow> error option \<times> world" where
  "RemoveAll p w =
     (if p = [] then (None, w)
      else if endsWithDot p then (Some (PathError ''RemoveAll'' p EINVAL), w)
      else (case resolve w p of
              None \<Rightarrow> (None, w)
            | Some k \<Rightarrow> (None, w\<lparr>fs := (\<lambda>q. if prefix k q then None else fs w q)\<rparr>)))"

text \<open>
  \<open>os.MkdirAll\<close>: every missing directory on the way down to the path is created with
  the permission bits of \<open>perm\<close> less the umask; a regular file on the way is \<open>ENOTDIR\<close>.
\<close>

fun mkdir_chain :: "FileMode \<Rightarrow> key list \<Rightarrow> (key \<rightharpoonup> node) \<Rightarrow> errno option \<times> (key \<rightharpoonup> node)" where
  "mkdir_chain m [] f = (None, f)"
| "mkdir_chain m (q # qs) f =
     (case f q of
        Some (File c fm) \<Rightarrow> (Some ENOTDIR, f)
      | Some (Dir dm) \<Rightarrow> mkdir_chain m qs f
      | None \<Rightarrow> mkdir_chain m qs (f(q \<mapsto> Dir m)))"

definition MkdirAll :: "string \<Rightarrow> FileMode \<Rightarrow> world \<Rightarrow> error option \<times> world" where
  "MkdirAll p perm w =
     (case resolve w p of
        None \<Rightarrow> (Some (PathError ''mkdir'' p ENOENT), w)
      | Some k \<Rightarrow>
          (case mkdir_chain (syscallMode perm AND NOT (umask w)) (tl (prefixes k)) (fs w) of
             (Some e, f) \<Rightarrow> (Some (PathError ''mkdir'' p e), w\<lparr>fs := f\<rparr>)
           | (None, f) \<Rightarrow> (None, w\<lparr>fs := f\<rparr>)))"

section \<open>The copy utility\<close>

text \<open>
  Modelled from the spec: \<open>fsutils.CopyfsItem(src, dst)\<close> of package \<open>utils/fsutils\<close>
  of this repository is not among the sources. The spec describes it at its interface, as
  the file-copy utility that duplicates the file or directory tree at the source path at
  the destination path (the copy is recursive) and reports the underlying I/O error if the
  copy cannot complete. A regular file is read and written at the destination with the
  source's permission bits; a directory is created at the destination and every entry
  below the source is duplicated below it.
\<close>

definition CopyfsItem :: "string \<Rightarrow> string \<Rightarrow> world \<Rightarrow> error option \<times> world" where
  "CopyfsItem src dst w =
     (case Stat w src of
        Inl e \<Rightarrow> (Some e, w)
      | Inr (File c m) \<Rightarrow>
          (case ReadFile w src of
             Inl e \<Rightarrow> (Some e, w)
           | Inr content \<Rightarrow> WriteFile dst content m w)
      | Inr (Dir m) \<Rightarrow>
          (case (resolve w src, resolve w dst) of
             (Some sk, Some dk) \<Rightarrow>
               (case MkdirAll dst m w of
                  (Some e, w') \<Rightarrow> (Some e, w')
                | (None, w') \<Rightarrow>
                    (None, w'\<lparr>fs := (\<lambda>q. if strict_prefix dk q
                                            then fs w (sk @ drop (length dk) q)
                                            else fs w' q)\<rparr>))
           | _ \<Rightarrow> (Some (PathError ''copy'' dst ENOENT), w)))"

section \<open>Package \<open>infra\<close>\<close>

text \<open>
  The struct \<open>Banai\<close>. The script engine \<open>Jse\<close> and the \<open>Logger\<close> take no part in the
  secret registry and the stash and are left out, and so is \<open>PanicOnError\<close>, which only
  hands an error to the script engine; \<open>secrets\<close> is the address of the session's Go map
  in the heap.
\<close>

record Banai =
  TmpDir :: string
  stashFolder :: string
  secretFolder :: string
  secrets :: nat

text \<open>
  \<open>NewBanai\<close>: a fresh map, the session root \<open>./.banai\<close> made absolute (the error of
  \<open>filepath.Abs\<close> is dropped, which leaves the empty string), and the two folders
  removed and created again with mode \<open>0700\<close>; the four errors are dropped.
\<close>

definition NewBanai :: "world \<Rightarrow> Banai \<times> world" where
  "NewBanai w =
     (let r = next_ref w;
          w0 = w\<lparr>heap := (heap w)(r \<mapsto> Map.empty), next_ref := Suc r\<rparr>;
          tmp = (case Abs ''./.banai'' w0 of Inl e \<Rightarrow> [] | Inr p \<Rightarrow> p);
          stash = Join tmp ''stash'';
          sec = Join tmp ''sec'';
          w1 = snd (RemoveAll stash w0);
          w2 = snd (MkdirAll stash 448 w1);
          w3 = snd (RemoveAll sec w2);
          w4 = snd (MkdirAll sec 448 w3)
      in (\<lparr>TmpDir = tmp, stashFolder = stash, secretFolder = sec, secrets = r\<rparr>, w4))"

text \<open>\<open>Close\<close>: the session root is removed; the error of \<open>os.RemoveAll\<close> is dropped.\<close>

definition Close :: "Banai \<Rightarrow> world \<Rightarrow> world" where
  "Close b w = snd (RemoveAll (TmpDir b) w)"

text \<open>
  \<open>Save\<close>. The identifier \<open>uuid.NewString()\<close> returns is the argument \<open>stashID\<close>. The
  destination handed to the copy utility is \<open>stashID\<close> itself.
\<close>

definition Save :: "Banai \<Rightarrow> string \<Rightarrow> string \<Rightarrow> world \<Rightarrow> (error + string) \<times> world" where
  "Save b fileName stashID w =
     (case Abs fileName w of
        Inl e \<Rightarrow> (Inl e, w)
      | Inr abs_path \<Rightarrow>
          (case CopyfsItem abs_path stashID w of
             (Some e, w') \<Rightarrow> (Inl e, w')
           | (None, w') \<Rightarrow> (Inr stashID, w')))"

definition Load :: "Banai \<Rightarrow> string \<Rightarrow> world \<Rightarrow> error + bytes" where
  "Load b stashID w =
     (let path = Join (stashFolder b) stashID in
      case Stat w path of
        Inl e \<Rightarrow> Inl e
      | Inr info \<Rightarrow>
          (case ReadFile w path of
             Inl e \<Rightarrow> Inl e
           | Inr f \<Rightarrow> Inr f))"

text \<open>
  The three \<open>Add\<close> methods assign to the session's map; assigning to an entry of the nil
  map is a run-time panic.
\<close>

definition store_secret :: "Banai \<Rightarrow> string \<Rightarrow> secretStruct \<Rightarrow> world \<Rightarrow> error + world" where
  "store_secret b secretID v w =
     (case heap w (secrets b) of
        None \<Rightarrow> Inl (Panic ''assignment to entry in nil map'')
      | Some m \<Rightarrow> Inr (w\<lparr>heap := (heap w)(secrets b \<mapsto> m(secretID \<mapsto> v))\<rparr>))"

definition AddStringSecret :: "Banai \<Rightarrow> string \<Rightarrow> string \<Rightarrow> world \<Rightarrow> error + world" where
  "AddStringSecret b secretID val w = store_secret b secretID (secretText val) w"

definition AddSSHWithPrivate ::
  "Banai \<Rightarrow> string \<Rightarrow> string \<Rightarrow> string \<Rightarrow> string \<Rightarrow> world \<Rightarrow> error + world" where
  "AddSSHWithPrivate b secretID user privateKey passphrase w =
     store_secret b secretID (secretSSHWithPrivate user privateKey passphrase) w"

definition AddUserPassword :: "Banai \<Rightarrow> string \<Rightarrow> string \<Rightarrow> string \<Rightarrow> world \<Rightarrow> error + world" where
  "AddUserPassword b secretID user password w =
     store_secret b secretID (secretUserPassword user password) w"

text \<open>The views \<open>TextSecret\<close>, \<open>SSHWithPrivate\<close> (user, key file, passphrase) and \<open>UserPassword\<close>.\<close>

datatype SecretInfo =
    TextSecret string
  | SSHWithPrivate string string string
  | UserPassword string string

fun GetType :: "SecretInfo \<Rightarrow> string" where
  "GetType (TextSecret t) = ''text''"
| "GetType (SSHWithPrivate u f p) = ''ssh''"
| "GetType (UserPassword u p) = ''userpass''"

text \<open>\<open>v, ok := b.secrets[secretID]\<close>: reading the nil map finds nothing.\<close>

definition find_secret :: "Banai \<Rightarrow> string \<Rightarrow> world \<Rightarrow> secretStruct option" where
  "find_secret b secretID w =
     (case heap w (secrets b) of None \<Rightarrow> None | Some m \<Rightarrow> m secretID)"

text \<open>
  \<open>GetSecret\<close>. The switch goes by the tag of the stored value; a type assertion that
  does not hold is a panic, and a tag outside the three cases leaves the result \<open>nil\<close>
  with no error (\<open>Inr None\<close>). The key file is written with the mode argument \<open>600\<close>.
\<close>

definition GetSecret :: "Banai \<Rightarrow> string \<Rightarrow> world \<Rightarrow> (error + SecretInfo option) \<times> world" where
  "GetSecret b secretID w =
     (case find_secret b secretID w of
        None \<Rightarrow> (Inl ErrSecretNotFound, w)
      | Some v \<Rightarrow>
          if GetType_secret v = ''text'' then
            (case v of
               secretText t \<Rightarrow> (Inr (Some (TextSecret t)), w)
             | _ \<Rightarrow> (Inl (Panic ''interface conversion''), w))
          else if GetType_secret v = ''ssh'' then
            (case v of
               secretSSHWithPrivate user privateKey passphrase \<Rightarrow>
                 (let fn = Join (secretFolder b) secretID in
                  case WriteFile fn privateKey 600 w of
                    (Some err, w') \<Rightarrow> (Inl ErrSecretNotFound, w')
                  | (None, w') \<Rightarrow> (Inr (Some (SSHWithPrivate user fn passphrase)), w'))
             | _ \<Rightarrow> (Inl (Panic ''interface conversion''), w))
          else if GetType_secret v = ''userpass'' then
            (case v of
               secretUserPassword user password \<Rightarrow> (Inr (Some (UserPassword user password)), w)
             | _ \<Rightarrow> (Inl (Panic ''interface conversion''), w))
          else (Inr None, w))"

section \<open>Notions for the statements, and example worlds\<close>

text \<open>
  A path element is plain when it is a name: not empty, not \<open>.\<close> or \<open>..\<close>, and free of
  separators.
\<close>

definition plain :: "string \<Rightarrow> bool" where
  "plain c = (c \<noteq> [] \<and> c \<noteq> ''.'' \<and> c \<noteq> ''..'' \<and> CHR ''/'' \<notin> set c)"

text \<open>
  The elements of the session root of a session constructed in working directory \<open>cs\<close>.
\<close>

definition session_root :: "key \<Rightarrow> key" where
  "session_root cs = components (CHR ''/'' # joinSep cs) @ [''.banai'']"

text \<open>
  What \<open>os.RemoveAll\<close> followed by \<open>os.MkdirAll\<close> of the same path \<open>k\<close> leaves of a
  file tree \<open>f\<close>.
\<close>

definition fresh_dirs :: "FileMode \<Rightarrow> key \<Rightarrow> (key \<rightharpoonup> node) \<Rightarrow> (key \<rightharpoonup> node)" where
  "fresh_dirs m k f = snd (mkdir_chain m (tl (prefixes k)) (\<lambda>q. if prefix k q then None else f q))"

text \<open>
  A machine with a directory \<open>/w\<close> holding one file, an unprivileged process with the
  usual umask \<open>022\<close> working in \<open>/w\<close>, and the session it constructs there.
\<close>

definition ex_w0 :: world where
  "ex_w0 = \<lparr>fs = [[''w''] \<mapsto> Dir 493, [''w'', ''a.txt''] \<mapsto> File ''hi'' 420],
            cwd = Some [''w''], umask = 18, euid_root = False, heap = Map.empty, next_ref = 0\<rparr>"

definition ex_b :: Banai where
  "ex_b = fst (NewBanai ex_w0)"

definition ex_w1 :: world where
  "ex_w1 = snd (NewBanai ex_w0)"

text \<open>The session with a key registered under \<open>k\<close>, and after the first \<open>GetSecret\<close> of it.\<close>

definition ex_w2 :: world where
  "ex_w2 = (case AddSSHWithPrivate ex_b ''k'' ''u'' ''KEY'' ''pp'' ex_w1 of
              Inr w \<Rightarrow> w | Inl e \<Rightarrow> ex_w1)"

definition ex_w3 :: world where
  "ex_w3 = snd (GetSecret ex_b ''k'' ex_w2)"

text \<open>The session with a text secret registered under \<open>tok\<close>, and after \<open>Close\<close>.\<close>

definition ex_wt :: world where
  "ex_wt = (case AddStringSecret ex_b ''tok'' ''s3cr3t'' ex_w1 of
              Inr w \<Rightarrow> w | Inl e \<Rightarrow> ex_w1)"

definition ex_wc :: world where
  "ex_wc = Close ex_b ex_wt"

text \<open>The session after \<open>Save\<close> of \<open>a.txt\<close>, the generated identifier being \<open>u1\<close>.\<close>

definition ex_ws :: world where
  "ex_ws = snd (Save ex_b ''a.txt'' ''u1'' ex_w1)"

text \<open>
  The session with three secrets in its map; the session with three files in its stash
  folder (one empty, one without read permission); and the tree a session leaves behind
  when its process dies without \<open>Close\<close>, seen by a new process.
\<close>

definition ex_reg :: world where
  "ex_reg = ex_w1\<lparr>heap := [0 \<mapsto> [''tok'' \<mapsto> secretText ''s3cr3t'',
                                  ''up'' \<mapsto> secretUserPassword ''u'' ''p'',
                                  ''a/b'' \<mapsto> secretSSHWithPrivate ''u'' ''KEY'' ''pp'']]\<rparr>"





text \<open>The tree after the first \<open>GetSecret\<close> of \<open>k\<close>, seen by a superuser process.\<close>

definition ex_su :: world where
  "ex_su = ex_w3\<lparr>euid_root := True\<rparr>"

section \<open>Facts about paths\<close>

text \<open>
  How the element loop, \<open>Clean\<close> and \<open>Join\<close> act on absolute paths, whose elements
  are plain once cleaned.
\<close>

lemma splitSep_not_Nil: "splitSep s \<noteq> []"
  by (induction s) (auto split: list.splits)

lemma splitSep_append: "splitSep (a @ CHR ''/'' # b) = splitSep a @ splitSep b"
  by (induction a) (auto split: list.splits simp: splitSep_not_Nil)

lemma splitSep_no_sep: "c \<in> set (splitSep s) \<Longrightarrow> CHR ''/'' \<notin> set c"
  by (induction s arbitrary: c) (auto split: list.splits if_splits)

lemma splitSep_single: "CHR ''/'' \<notin> set x \<Longrightarrow> splitSep x = [x]"
  by (induction x) auto

lemma clean_step_plain:
  "list_all plain acc \<Longrightarrow> CHR ''/'' \<notin> set c \<Longrightarrow> list_all plain (clean_step True acc c)"
  by (cases acc) (simp_all add: clean_step_def plain_def)

lemma foldl_clean_step_plain:
  "list_all plain acc \<Longrightarrow> (\<forall>c\<in>set xs. CHR ''/'' \<notin> set c)
     \<Longrightarrow> list_all plain (foldl (clean_step True) acc xs)"
  by (induction xs arbitrary: acc) (simp_all add: clean_step_plain)

lemma foldl_clean_step_id:
  "list_all plain xs \<Longrightarrow> foldl (clean_step r) acc xs = rev xs @ acc"
  by (induction xs arbitrary: acc) (simp_all add: clean_step_def plain_def)

lemma splitSep_joinSep:
  "xs \<noteq> [] \<Longrightarrow> (\<forall>c\<in>set xs. CHR ''/'' \<notin> set c) \<Longrightarrow> splitSep (joinSep xs) = xs"
  by (induction xs rule: joinSep.induct) (simp_all add: splitSep_append splitSep_single)

lemma components_plain: "list_all plain (components s)"
  unfolding components_def clean_elems_def
  by (simp add: foldl_clean_step_plain splitSep_no_sep)

text \<open>Printing a list of plain elements as a rooted path and reading it back gives the list.\<close>

lemma components_rooted:
  assumes "list_all plain cs"
  shows "components (CHR ''/'' # joinSep cs) = cs"
proof (cases "cs = []")
  case True
  then show ?thesis by (simp add: components_def clean_elems_def clean_step_def)
next
  case False
  with assms have "splitSep (joinSep cs) = cs"
    by (intro splitSep_joinSep) (auto simp: list_all_iff plain_def)
  with assms show ?thesis
    by (simp add: components_def clean_elems_def foldl_clean_step_id) (simp add: clean_step_def)
qed

lemma Clean_abs: "IsAbs p \<Longrightarrow> Clean p = CHR ''/'' # joinSep (components p)"
  by (auto simp: Clean_def components_def IsAbs_def)

lemma IsAbs_rooted: "IsAbs (CHR ''/'' # s)"
  by (simp add: IsAbs_def)

lemma IsAbs_append: "IsAbs a \<Longrightarrow> IsAbs (a @ b)"
  by (cases a) (auto simp: IsAbs_def)

lemma Join_abs:
  assumes "IsAbs a"
  shows "Join a b = CHR ''/'' # joinSep (components (a @ CHR ''/'' # b))"
proof -
  from assms have "a \<noteq> []" by (auto simp: IsAbs_def)
  then show ?thesis by (simp add: Join_def Clean_abs IsAbs_append assms)
qed

lemma IsAbs_Join: "IsAbs a \<Longrightarrow> IsAbs (Join a b)"
  by (simp add: Join_abs IsAbs_rooted)

text \<open>Joining below an absolute path continues the element loop from that path's elements.\<close>

lemma components_Join:
  assumes "IsAbs a"
  shows "components (Join a b) = rev (foldl (clean_step True) (rev (components a)) (splitSep b))"
proof -
  have "components (Join a b) = components (a @ CHR ''/'' # b)"
    by (simp add: Join_abs assms components_rooted components_plain)
  then show ?thesis
    by (simp add: components_def clean_elems_def splitSep_append)
qed

lemma components_Join_plain:
  "IsAbs a \<Longrightarrow> plain c \<Longrightarrow> components (Join a c) = components a @ [c]"
  by (simp add: components_Join splitSep_single plain_def clean_step_def)

lemma resolve_abs: "IsAbs p \<Longrightarrow> resolve w p = Some (components p)"
  by (auto simp: resolve_def IsAbs_def)

lemma rooted_snoc: "\<exists>pre. CHR ''/'' # joinSep (xs @ [c]) = pre @ CHR ''/'' # c"
proof (induction xs rule: joinSep.induct)
  case 1 show ?case by simp
next
  case (2 x) show ?case by (rule exI[of _ "CHR ''/'' # x"]) simp
next
  case (3 x y ys)
  then obtain pre where "CHR ''/'' # joinSep ((y # ys) @ [c]) = pre @ CHR ''/'' # c" by blast
  then show ?case by (intro exI[of _ "CHR ''/'' # x @ pre"]) simp
qed

lemma endsWithDot_plain:
  assumes "plain c"
  shows "\<not> endsWithDot (CHR ''/'' # joinSep (xs @ [c]))"
proof
  assume e: "endsWithDot (CHR ''/'' # joinSep (xs @ [c]))"
  obtain pre where p: "CHR ''/'' # joinSep (xs @ [c]) = pre @ CHR ''/'' # c"
    using rooted_snoc by blast
  from assms have ne: "c \<noteq> []" by (simp add: plain_def)
  from e p have "suffix ''/.'' (pre @ CHR ''/'' # c)"
    by (auto simp: endsWithDot_def)
  then obtain zs where z: "pre @ CHR ''/'' # c = zs @ ''/.''" by (auto simp: suffix_def)
  from ne obtain c' x where c: "c = c' @ [x]" by (cases c rule: rev_cases) auto
  with z have "(pre @ CHR ''/'' # c') @ [x] = (zs @ ''/'') @ ''.''" by simp
  then have x: "x = CHR ''.''" and r: "pre @ CHR ''/'' # c' = zs @ ''/''" by (simp_all only: append1_eq_conv)
  show False
  proof (cases c' rule: rev_cases)
    case Nil
    with c x assms show False by (simp add: plain_def)
  next
    case (snoc c'' y)
    with r have "(pre @ CHR ''/'' # c'') @ [y] = zs @ [CHR ''/'']" by simp
    then have "y = CHR ''/''" by (simp only: append1_eq_conv)
    with snoc c assms show False by (simp add: plain_def)
  qed
qed

lemma plain_names: "plain ''.banai''" "plain ''stash''" "plain ''sec''"
  by (simp_all add: plain_def)

lemma Join_canon: "IsAbs a \<Longrightarrow> Join a b = CHR ''/'' # joinSep (components (Join a b))"
  by (simp add: Join_abs components_rooted components_plain)

lemma Join_plain: "IsAbs a \<Longrightarrow> plain c \<Longrightarrow> Join a c = CHR ''/'' # joinSep (components a @ [c])"
  using Join_canon[of a c] by (simp add: components_Join_plain)

lemma resolve_rooted: "list_all plain k \<Longrightarrow> resolve w (CHR ''/'' # joinSep k) = Some k"
  by (simp add: resolve_abs IsAbs_rooted components_rooted)

lemma splitSep_dotdot_sec: "splitSep (''../sec/'' @ s) = ''..'' # ''sec'' # splitSep s"
  using splitSep_append[of "''..''" "''sec'' @ CHR ''/'' # s"] splitSep_append[of "''sec''" s]
  by simp


lemma strict_prefix_butlast: "strict_prefix r q \<Longrightarrow> prefix r (butlast q)"
  by (auto simp: strict_prefix_def prefix_def butlast_append)

lemmas path_eval = Join_def Clean_def IsAbs_def clean_elems_def clean_step_def components_def
  resolve_def Getwd_def

section \<open>Facts about the file system\<close>










lemma RemoveAll_rooted:
  assumes "list_all plain k" "plain c"
  shows "RemoveAll (CHR ''/'' # joinSep (k @ [c])) w =
           (None, w\<lparr>fs := (\<lambda>q. if prefix (k @ [c]) q then None else fs w q)\<rparr>)"
  using assms by (simp add: RemoveAll_def endsWithDot_plain resolve_rooted)

lemma MkdirAll_rooted:
  assumes "list_all plain k"
  shows "snd (MkdirAll (CHR ''/'' # joinSep k) perm w) =
           w\<lparr>fs := snd (mkdir_chain (syscallMode perm AND NOT (umask w)) (tl (prefixes k)) (fs w))\<rparr>"
  using assms by (simp add: MkdirAll_def resolve_rooted split: prod.splits option.splits)

lemma remake_rooted:
  assumes "list_all plain k" "plain c"
  shows "snd (MkdirAll (CHR ''/'' # joinSep (k @ [c])) perm (snd (RemoveAll (CHR ''/'' # joinSep (k @ [c])) w))) =
           w\<lparr>fs := fresh_dirs (syscallMode perm AND NOT (umask w)) (k @ [c]) (fs w)\<rparr>"
proof -
  from assms have "list_all plain (k @ [c])" by simp
  then show ?thesis
    unfolding fresh_dirs_def
    by (simp add: RemoveAll_rooted[OF assms] MkdirAll_rooted del: prefixes_snoc)
qed



lemma WriteFile_frame:
  "heap (snd (WriteFile p d m w)) = heap w" "cwd (snd (WriteFile p d m w)) = cwd w"
  "umask (snd (WriteFile p d m w)) = umask w" "euid_root (snd (WriteFile p d m w)) = euid_root w"
  "next_ref (snd (WriteFile p d m w)) = next_ref w"
  by (simp_all add: WriteFile_def split: option.splits node.splits)

lemma Load_entry:
  "Load b h w =
     (case entry w (Join (stashFolder b) h) of
        None \<Rightarrow> Inl (PathError ''stat'' (Join (stashFolder b) h) ENOENT)
      | Some (Dir m) \<Rightarrow> Inl (PathError ''read'' (Join (stashFolder b) h) EISDIR)
      | Some (File c m) \<Rightarrow>
          if may_read w m then Inr c
          else Inl (PathError ''open'' (Join (stashFolder b) h) EACCES))"
proof (cases "entry w (Join (stashFolder b) h)")
  case None
  then show ?thesis by (simp add: Load_def Stat_def)
next
  case (Some n)
  then show ?thesis by (cases n) (simp_all add: Load_def Stat_def ReadFile_def)
qed

section \<open>Facts about the secret registry\<close>

lemma find_secret_stored:
  "store_secret b sid v w = Inr w' \<Longrightarrow> find_secret b sid w' = Some v \<and> fs w' = fs w"
  by (auto simp: store_secret_def find_secret_def split: option.splits)

lemma store_secret_ok:
  "heap w (secrets b) = Some m \<Longrightarrow> \<exists>w'. store_secret b sid v w = Inr w'"
  by (simp add: store_secret_def)

lemma store_secret_heap:
  "store_secret b sid v w = Inr w' \<Longrightarrow> \<exists>m. heap w' (secrets b) = Some m"
  by (auto simp: store_secret_def split: option.splits)

lemma GetSecret_text:
  "find_secret b sid w = Some (secretText t) \<Longrightarrow> GetSecret b sid w = (Inr (Some (TextSecret t)), w)"
  by (simp add: GetSecret_def)

lemma GetSecret_userpass:
  "find_secret b sid w = Some (secretUserPassword u p) \<Longrightarrow>
     GetSecret b sid w = (Inr (Some (UserPassword u p)), w)"
  by (simp add: GetSecret_def)

lemma GetSecret_ssh:
  "find_secret b sid w = Some (secretSSHWithPrivate u k p) \<Longrightarrow>
     GetSecret b sid w =
       (case WriteFile (Join (secretFolder b) sid) k 600 w of
          (Some err, w') \<Rightarrow> (Inl ErrSecretNotFound, w')
        | (None, w') \<Rightarrow> (Inr (Some (SSHWithPrivate u (Join (secretFolder b) sid) p)), w'))"
  by (simp add: GetSecret_def Let_def)

lemma GetSecret_missing:
  "find_secret b sid w = None \<Longrightarrow> GetSecret b sid w = (Inl ErrSecretNotFound, w)"
  by (simp add: GetSecret_def)

section \<open>Facts about the session\<close>

text \<open>
  The fields and the world \<open>NewBanai\<close> returns when the working directory is known,
  and the world \<open>Close\<close> leaves.
\<close>

lemma session_root_plain: "list_all plain (session_root cs)"
  by (simp add: session_root_def components_plain plain_names)

lemma session_root_not_Nil: "session_root cs \<noteq> []"
  by (simp add: session_root_def)

lemma NewBanai_fields:
  assumes "NewBanai w = (b, w')" and "cwd w = Some cs"
  shows "TmpDir b = CHR ''/'' # joinSep (session_root cs)"
    and "stashFolder b = CHR ''/'' # joinSep (session_root cs @ [''stash''])"
    and "secretFolder b = CHR ''/'' # joinSep (session_root cs @ [''sec''])"
    and "secrets b = next_ref w"
proof -
  let ?wd = "CHR ''/'' # joinSep cs"
  have abs: "IsAbs ?wd" by (rule IsAbs_rooted)
  have c: "components (Join ?wd ''./.banai'') = session_root cs"
    by (simp add: components_Join[OF abs] session_root_def clean_step_def)
  have t: "TmpDir b = Join ?wd ''./.banai''"
    using assms by (auto simp: NewBanai_def Let_def Abs_def IsAbs_def Getwd_def)
  with c Join_canon[OF abs, of "''./.banai''"]
  show T: "TmpDir b = CHR ''/'' # joinSep (session_root cs)" by simp
  have absT: "IsAbs (TmpDir b)" by (simp add: T IsAbs_rooted)
  have cT: "components (TmpDir b) = session_root cs"
    by (simp add: T components_rooted session_root_plain)
  have "stashFolder b = Join (TmpDir b) ''stash''"
    using assms by (auto simp: NewBanai_def Let_def)
  then show "stashFolder b = CHR ''/'' # joinSep (session_root cs @ [''stash''])"
    by (simp add: Join_plain[OF absT] plain_names cT)
  have "secretFolder b = Join (TmpDir b) ''sec''"
    using assms by (auto simp: NewBanai_def Let_def)
  then show "secretFolder b = CHR ''/'' # joinSep (session_root cs @ [''sec''])"
    by (simp add: Join_plain[OF absT] plain_names cT)
  show "secrets b = next_ref w" using assms by (auto simp: NewBanai_def Let_def)
qed

lemma NewBanai_world:
  assumes "NewBanai w = (b, w')" and "cwd w = Some cs"
  shows "w' = w\<lparr>heap := (heap w)(next_ref w \<mapsto> Map.empty), next_ref := Suc (next_ref w),
                fs := fresh_dirs (syscallMode 448 AND NOT (umask w)) (session_root cs @ [''sec''])
                        (fresh_dirs (syscallMode 448 AND NOT (umask w)) (session_root cs @ [''stash'']) (fs w))\<rparr>"
proof -
  let ?w0 = "w\<lparr>heap := (heap w)(next_ref w \<mapsto> Map.empty), next_ref := Suc (next_ref w)\<rparr>"
  note f = NewBanai_fields[OF assms]
  have "w' = snd (MkdirAll (secretFolder b) 448 (snd (RemoveAll (secretFolder b)
               (snd (MkdirAll (stashFolder b) 448 (snd (RemoveAll (stashFolder b) ?w0)))))))"
    using assms(1) by (auto simp: NewBanai_def Let_def)
  then show ?thesis
    by (simp add: f remake_rooted session_root_plain plain_names del: prefixes_snoc)
qed




lemma NewBanai_resolve:
  assumes "NewBanai w = (b, w')" and "cwd w = Some cs"
  shows "resolve v (TmpDir b) = Some (session_root cs)"
    and "resolve v (stashFolder b) = Some (session_root cs @ [''stash''])"
    and "resolve v (secretFolder b) = Some (session_root cs @ [''sec''])"
    and "IsAbs (TmpDir b)" and "IsAbs (stashFolder b)" and "IsAbs (secretFolder b)"
  by (simp_all add: NewBanai_fields[OF assms] resolve_rooted session_root_plain plain_names IsAbs_rooted)






lemma NewBanai_escape:
  assumes "NewBanai w0 = (b, w1)" and "cwd w0 = Some cs"
  shows "resolve w (Join (stashFolder b) (''../sec/'' @ sid)) = resolve w (Join (secretFolder b) sid)"
proof -
  note r = NewBanai_resolve[OF assms]
  have cs: "components (stashFolder b) = session_root cs @ [''stash'']"
    and cc: "components (secretFolder b) = session_root cs @ [''sec'']"
    using r(2)[of w] r(3)[of w] resolve_abs[OF r(5), of w] resolve_abs[OF r(6), of w] by simp_all
  have "components (Join (stashFolder b) (''../sec/'' @ sid)) = components (Join (secretFolder b) sid)"
    by (simp add: components_Join r cs cc splitSep_dotdot_sec clean_step_def)
  then show ?thesis by (simp add: resolve_abs IsAbs_Join r)
qed

lemma NewBanai_key_file_outside:
  assumes "NewBanai w0 = (b, w1)" and "cwd w0 = Some cs" and "plain sid"
  shows "resolve w (Join (secretFolder b) sid) = Some (session_root cs @ [''sec'', sid])"
    and "\<not> prefix (session_root cs @ [''stash'']) (session_root cs @ [''sec'', sid])"
proof -
  note r = NewBanai_resolve[OF assms(1,2)]
  have cc: "components (secretFolder b) = session_root cs @ [''sec'']"
    using r(3)[of w] resolve_abs[OF r(6), of w] by simp
  show "resolve w (Join (secretFolder b) sid) = Some (session_root cs @ [''sec'', sid])"
    by (simp add: resolve_abs IsAbs_Join r components_Join_plain assms(3) cc)
  show "\<not> prefix (session_root cs @ [''stash'']) (session_root cs @ [''sec'', sid])"
    by simp
qed

lemma Close_world:
  assumes "NewBanai w0 = (b, w1)" and "cwd w0 = Some cs"
  shows "Close b w = w\<lparr>fs := (\<lambda>q. if prefix (session_root cs) q then None else fs w q)\<rparr>"
proof -
  have "TmpDir b = CHR ''/'' # joinSep (components (CHR ''/'' # joinSep cs) @ [''.banai''])"
    using NewBanai_fields(1)[OF assms] by (simp add: session_root_def)
  then show ?thesis
    by (simp add: Close_def RemoveAll_rooted components_plain plain_names session_root_def)
qed

lemma Close_find_secret:
  assumes "NewBanai w0 = (b, w1)" and "cwd w0 = Some cs"
  shows "find_secret b sid (Close b w) = find_secret b sid w"
  by (simp add: Close_world[OF assms] find_secret_def)

lemma Close_entry_gone:
  assumes "NewBanai w0 = (b, w1)" and "cwd w0 = Some cs"
    and "resolve w p = Some q" and "prefix (session_root cs) q"
  shows "entry (Close b w) p = None"
proof -
  from assms(4) session_root_not_Nil[of cs] have "q \<noteq> []" by auto
  moreover have "resolve (Close b w) p = resolve w p"
    by (simp add: Close_world[OF assms(1,2)] resolve_def Getwd_def)
  ultimately show ?thesis
    using assms(3,4) by (simp add: entry_def lookup_def Close_world[OF assms(1,2)])
qed

lemma Close_write_fails:
  assumes "NewBanai w0 = (b, w1)" and "cwd w0 = Some cs"
    and "resolve w p = Some q" and "strict_prefix (session_root cs) q"
  shows "fst (WriteFile p d m (Close b w)) = Some (PathError ''open'' p ENOENT)"
proof -
  from assms(4) have pq: "prefix (session_root cs) q" by (simp add: strict_prefix_def)
  with session_root_not_Nil[of cs] have "q \<noteq> []" by auto
  from strict_prefix_butlast[OF assms(4)] have pb: "prefix (session_root cs) (butlast q)" .
  with session_root_not_Nil[of cs] have "butlast q \<noteq> []" by auto
  moreover have "resolve (Close b w) p = resolve w p"
    by (simp add: Close_world[OF assms(1,2)] resolve_def Getwd_def)
  ultimately show ?thesis
    using assms(3) pq pb \<open>q \<noteq> []\<close>
    by (simp add: WriteFile_def lookup_def Close_world[OF assms(1,2)])
qed

section \<open>The example session\<close>

text \<open>
  The example worlds evaluated.
\<close>

lemma ex_session: "NewBanai ex_w0 = (ex_b, ex_w1)"
  by (simp add: ex_b_def ex_w1_def)

lemma ex_root: "session_root [''w''] = [''w'', ''.banai'']"
  by (simp add: session_root_def components_def clean_elems_def clean_step_def)

lemma ex_b_fields:
  "TmpDir ex_b = ''/w/.banai''" "stashFolder ex_b = ''/w/.banai/stash''"
  "secretFolder ex_b = ''/w/.banai/sec''" "secrets ex_b = 0"
  using NewBanai_fields[OF ex_session, of "[''w'']"]
  by (simp_all add: ex_root) (simp_all add: ex_w0_def)

lemma ex_w1_heap: "heap ex_w1 = [0 \<mapsto> Map.empty]" "cwd ex_w1 = Some [''w'']" "umask ex_w1 = 18" "euid_root ex_w1 = False"
proof -
  have "cwd ex_w0 = Some [''w'']" by (simp add: ex_w0_def)
  note e = NewBanai_world[OF ex_session this]
  show "heap ex_w1 = [0 \<mapsto> Map.empty]" by (subst e) (simp add: ex_w0_def)
  show "cwd ex_w1 = Some [''w'']" by (subst e) (simp add: ex_w0_def)
  show "umask ex_w1 = 18" by (subst e) (simp add: ex_w0_def)
  show "euid_root ex_w1 = False" by (subst e) (simp add: ex_w0_def)
qed

lemma ex_w1_fs:
  "fs ex_w1 = fresh_dirs 448 [''w'', ''.banai'', ''sec'']
               (fresh_dirs 448 [''w'', ''.banai'', ''stash''] (fs ex_w0))"
proof -
  have "cwd ex_w0 = Some [''w'']" by (simp add: ex_w0_def)
  note e = NewBanai_world[OF ex_session this]
  show ?thesis by (subst e) (simp add: ex_w0_def ex_root syscallMode_def)
qed

lemma ex_w1_dirs:
  "fs ex_w1 [''w'', ''.banai''] = Some (Dir 448)"
  "fs ex_w1 [''w'', ''.banai'', ''stash''] = Some (Dir 448)"
  "fs ex_w1 [''w'', ''.banai'', ''sec''] = Some (Dir 448)"
  "fs ex_w1 [''w'', ''a.txt''] = Some (File ''hi'' 420)"
  "fs ex_w1 [''w'', ''.banai'', ''stash'', h] = None"
  "fs ex_w1 [''w'', ''.banai'', ''sec'', h] = None"
  "fs ex_w1 [''w'', ''.banai'', ''sec'', h, h'] = None"
  by (simp_all add: ex_w1_fs fresh_dirs_def ex_w0_def)

lemma ex_reg_find:
  "find_secret ex_b ''missing'' ex_reg = None"
  "find_secret ex_b ''tok'' ex_reg = Some (secretText ''s3cr3t'')"
  "find_secret ex_b ''up'' ex_reg = Some (secretUserPassword ''u'' ''p'')"
  "find_secret ex_b ''a/b'' ex_reg = Some (secretSSHWithPrivate ''u'' ''KEY'' ''pp'')"
  by (simp_all add: find_secret_def ex_reg_def ex_b_fields)

lemma ex_reg_write:
  "fst (WriteFile (Join (secretFolder ex_b) ''a/b'') ''KEY'' 600 ex_reg)
     = Some (PathError ''open'' ''/w/.banai/sec/a/b'' ENOENT)"
  by (simp add: ex_b_fields path_eval WriteFile_def lookup_def ex_reg_def ex_w1_dirs)

lemma ex_Join_stash:
  "Join (stashFolder ex_b) ''nope'' = ''/w/.banai/stash/nope''"
  "Join (stashFolder ex_b) ''h0'' = ''/w/.banai/stash/h0''"
  "Join (stashFolder ex_b) ''h1'' = ''/w/.banai/stash/h1''"
  "Join (stashFolder ex_b) ''h2'' = ''/w/.banai/stash/h2''"
  "Join (stashFolder ex_b) ''.'' = ''/w/.banai/stash''"
  "Join (stashFolder ex_b) ''u1'' = ''/w/.banai/stash/u1''"
  "Join (stashFolder ex_b) ''../sec/k'' = ''/w/.banai/sec/k''"
  "Join (secretFolder ex_b) ''k'' = ''/w/.banai/sec/k''"
  by (simp_all add: ex_b_fields path_eval)



lemma ex_w2_add: "AddSSHWithPrivate ex_b ''k'' ''u'' ''KEY'' ''pp'' ex_w1 = Inr ex_w2"
  by (simp add: ex_w2_def AddSSHWithPrivate_def store_secret_def ex_w1_heap ex_b_fields)

lemma ex_w2_eq:
  "ex_w2 = ex_w1\<lparr>heap := [0 \<mapsto> [''k'' \<mapsto> secretSSHWithPrivate ''u'' ''KEY'' ''pp'']]\<rparr>"
  by (simp add: ex_w2_def AddSSHWithPrivate_def store_secret_def ex_w1_heap ex_b_fields)

lemma ex_w2_find: "find_secret ex_b ''k'' ex_w2 = Some (secretSSHWithPrivate ''u'' ''KEY'' ''pp'')"
  by (simp add: ex_w2_eq find_secret_def ex_b_fields)

lemma ex_w2_write:
  "WriteFile ''/w/.banai/sec/k'' ''KEY'' 600 ex_w2 =
     (None, ex_w2\<lparr>fs := (fs ex_w1)([''w'', ''.banai'', ''sec'', ''k''] \<mapsto> File ''KEY'' 72)\<rparr>)"
  by (simp add: WriteFile_def path_eval lookup_def ex_w2_eq ex_w1_dirs ex_w1_heap syscallMode_def)

lemma ex_w3_get:
  "GetSecret ex_b ''k'' ex_w2 = (Inr (Some (SSHWithPrivate ''u'' ''/w/.banai/sec/k'' ''pp'')), ex_w3)"
  "ex_w3 = ex_w2\<lparr>fs := (fs ex_w1)([''w'', ''.banai'', ''sec'', ''k''] \<mapsto> File ''KEY'' 72)\<rparr>"
  by (simp_all add: ex_w3_def GetSecret_ssh[OF ex_w2_find] ex_Join_stash ex_w2_write)






lemma ex_su_entry:
  "entry ex_su (Join (secretFolder ex_b) ''k'') = Some (File ''KEY'' 72)"
  "may_read ex_su 72"
  by (simp_all add: ex_Join_stash may_read_def ex_su_def)
     (simp add: entry_def resolve_def IsAbs_def components_def clean_elems_def clean_step_def
        lookup_def ex_w3_get)

lemma ex_wt_eq:
  "AddStringSecret ex_b ''tok'' ''s3cr3t'' ex_w1 = Inr ex_wt"
  "find_secret ex_b ''tok'' ex_wt = Some (secretText ''s3cr3t'')"
  by (simp_all add: ex_wt_def AddStringSecret_def store_secret_def ex_w1_heap ex_b_fields
        find_secret_def)

lemma ex_w0_cwd: "cwd ex_w0 = Some [''w'']"
  by (simp add: ex_w0_def)

lemma ex_wc_eq:
  "ex_wc = ex_wt\<lparr>fs := (\<lambda>q. if prefix [''w'', ''.banai''] q then None else fs ex_wt q)\<rparr>"
  using Close_world[OF ex_session ex_w0_cwd, of ex_wt] by (simp add: ex_wc_def ex_root)

lemma ex_reg_resolve:
  "resolve ex_reg (Join (secretFolder ex_b) ''a/b'') = Some [''w'', ''.banai'', ''sec'', ''a'', ''b'']"
  "resolve ex_reg (Join (stashFolder ex_b) ''u1'') = Some [''w'', ''.banai'', ''stash'', ''u1'']"
  by (simp_all add: ex_b_fields path_eval)

lemma ex_w1_cwd_dir:
  "fs ex_w1 [''w''] = Some (Dir 493)"
  "fs ex_w1 [''w'', ''u1''] = None"
  by (simp_all add: ex_w1_fs fresh_dirs_def ex_w0_def)

lemma ex_copy:
  "CopyfsItem ''/w/a.txt'' ''u1'' ex_w1 =
     (None, ex_w1\<lparr>fs := (fs ex_w1)([''w'', ''u1''] \<mapsto> File ''hi'' 420)\<rparr>)"
proof -
  have e: "entry ex_w1 ''/w/a.txt'' = Some (File ''hi'' 420)"
    by (simp add: entry_def lookup_def path_eval ex_w1_dirs)
  have r: "resolve ex_w1 ''u1'' = Some [''w'', ''u1'']"
    by (simp add: path_eval ex_w1_heap)
  have w: "WriteFile ''u1'' ''hi'' 420 ex_w1 =
             (None, ex_w1\<lparr>fs := (fs ex_w1)([''w'', ''u1''] \<mapsto> File ''hi'' 420)\<rparr>)"
    by (simp add: WriteFile_def r lookup_def ex_w1_cwd_dir syscallMode_def ex_w1_heap)
  show ?thesis
    by (simp add: CopyfsItem_def Stat_def ReadFile_def e may_read_def w)
qed

lemma ex_save:
  "Save ex_b ''a.txt'' ''u1'' ex_w1 = (Inr ''u1'', ex_ws)"
  "ex_ws = ex_w1\<lparr>fs := (fs ex_w1)([''w'', ''u1''] \<mapsto> File ''hi'' 420)\<rparr>"
proof -
  have a: "Abs ''a.txt'' ex_w1 = Inr ''/w/a.txt''"
    by (simp add: Abs_def path_eval ex_w1_heap)
  have s: "Save ex_b ''a.txt'' ''u1'' ex_w1 =
             (Inr ''u1'', ex_w1\<lparr>fs := (fs ex_w1)([''w'', ''u1''] \<mapsto> File ''hi'' 420)\<rparr>)"
    by (simp add: Save_def a ex_copy)
  then show "ex_ws = ex_w1\<lparr>fs := (fs ex_w1)([''w'', ''u1''] \<mapsto> File ''hi'' 420)\<rparr>"
    by (simp add: ex_ws_def)
  with s show "Save ex_b ''a.txt'' ''u1'' ex_w1 = (Inr ''u1'', ex_ws)" by simp
qed

lemma ex_ws_entry:
  "entry ex_ws ''/w/u1'' = Some (File ''hi'' 420)"
  "entry ex_ws ''/w/.banai/stash/u1'' = None"
  by (simp_all add: entry_def lookup_def path_eval ex_save(2) ex_w1_dirs)

lemma ex_w3_read:
  "entry ex_w3 ''/w/.banai/sec/k'' = Some (File ''KEY'' 72)"
  "euid_root ex_w3 = False"
  by (simp_all add: entry_def lookup_def path_eval ex_w3_get ex_w2_eq ex_w1_heap)

section \<open>The claims\<close>

text \<open>
  Claim C1, at a failing input. In the session constructed in \<open>/w\<close>, \<open>Save\<close> of
  \<open>a.txt\<close> with generated identifier \<open>u1\<close> returns the handle \<open>u1\<close>, but the copy is at
  \<open>/w/u1\<close>, in the working directory: \<open>Save\<close> hands the bare identifier to the copy
  utility as destination where \<open>Load\<close> joins it to the stash folder. Nothing is at
  \<open>/w/.banai/stash/u1\<close>, and \<open>Load\<close> of the handle fails with the not-exist error of its
  probe.
\<close>

theorem Save_copies_outside_stash:
  "Save ex_b ''a.txt'' ''u1'' ex_w1 = (Inr ''u1'', ex_ws)
   \<and> entry ex_ws ''/w/u1'' = Some (File ''hi'' 420)
   \<and> Join (stashFolder ex_b) ''u1'' = ''/w/.banai/stash/u1''
   \<and> entry ex_ws ''/w/.banai/stash/u1'' = None
   \<and> Load ex_b ''u1'' ex_ws = Inl (PathError ''stat'' ''/w/.banai/stash/u1'' ENOENT)"
  by (simp add: ex_save(1) ex_ws_entry ex_Join_stash Load_entry)

text \<open>
  Claim C2, at a failing input. In the session constructed in \<open>/w\<close> by an unprivileged
  process with umask \<open>022\<close>, the first \<open>GetSecret\<close> of an SSH secret returns the view with
  the user, the passphrase and the path, and writes the key file; but the mode argument of
  the write is the decimal \<open>600\<close>, whose permission bits are \<open>0130\<close> (88), not \<open>0600\<close>.
  The file gets mode \<open>0110\<close> (72): its owner may neither read nor write it and its group
  may execute it. Reading the file at the returned path fails with \<open>EACCES\<close>, and the
  second \<open>GetSecret\<close> fails with \<open>ErrSecretNotFound\<close> because the file cannot be opened
  for writing again.
\<close>

theorem GetSecret_key_file_mode:
  "AddSSHWithPrivate ex_b ''k'' ''u'' ''KEY'' ''pp'' ex_w1 = Inr ex_w2
   \<and> GetSecret ex_b ''k'' ex_w2 = (Inr (Some (SSHWithPrivate ''u'' ''/w/.banai/sec/k'' ''pp'')), ex_w3)
   \<and> syscallMode 600 = 88 \<and> \<not> owner_only 88
   \<and> entry ex_w3 ''/w/.banai/sec/k'' = Some (File ''KEY'' 72)
   \<and> \<not> owner_only 72 \<and> \<not> may_read ex_w3 72 \<and> \<not> may_write ex_w3 72
   \<and> ReadFile ex_w3 ''/w/.banai/sec/k'' = Inl (PathError ''open'' ''/w/.banai/sec/k'' EACCES)
   \<and> fst (GetSecret ex_b ''k'' ex_w3) = Inl ErrSecretNotFound"
proof -
  have f: "find_secret ex_b ''k'' ex_w3 = Some (secretSSHWithPrivate ''u'' ''KEY'' ''pp'')"
    by (simp add: ex_w3_get ex_w2_eq find_secret_def ex_b_fields)
  have w: "fst (WriteFile ''/w/.banai/sec/k'' ''KEY'' 600 ex_w3)
             = Some (PathError ''open'' ''/w/.banai/sec/k'' EACCES)"
    by (simp add: WriteFile_def path_eval lookup_def may_write_def ex_w3_get ex_w2_eq ex_w1_heap)
  have "fst (GetSecret ex_b ''k'' ex_w3) = Inl ErrSecretNotFound"
    using w by (cases "WriteFile ''/w/.banai/sec/k'' ''KEY'' 600 ex_w3")
               (simp add: GetSecret_ssh[OF f] ex_Join_stash)
  then show ?thesis
    by (simp add: ex_w2_add ex_w3_get(1) ex_w3_read syscallMode_def owner_only_def may_read_def
          may_write_def ReadFile_def)
qed

text \<open>
  Claim C3 as stated fails: after \<open>Close\<close>, \<open>GetSecret\<close> of a text secret registered
  before still succeeds with its view.
\<close>

theorem GetSecret_succeeds_after_Close:
  "AddStringSecret ex_b ''tok'' ''s3cr3t'' ex_w1 = Inr ex_wt
   \<and> Close ex_b ex_wt = ex_wc
   \<and> fst (GetSecret ex_b ''tok'' ex_wc) = Inr (Some (TextSecret ''s3cr3t''))"
  by (simp add: ex_wt_eq ex_wc_def GetSecret_def find_secret_def ex_wc_eq[unfolded ex_wc_def]
        ex_wt_eq(2)[unfolded find_secret_def])

text \<open>
  Claim C3, as amended. \<open>Close\<close> removes the session root and everything below it. The
  session has no closed state and no error for it: after \<open>Close\<close>, \<open>GetSecret\<close> of a text
  or user-password secret still returns its view; \<open>GetSecret\<close> of an SSH secret whose key
  file lies below the session root fails with \<open>ErrSecretNotFound\<close>; and \<open>Load\<close> of a
  handle whose joined path lies at or below the session root fails with the not-exist
  error of its probe.
\<close>

theorem Close_removes_session_root:
  assumes "NewBanai w0 = (b, w1)" and "cwd w0 = Some cs"
  shows "(\<forall>q. prefix (session_root cs) q \<longrightarrow> fs (Close b w) q = None)
       \<and> resolve (Close b w) (TmpDir b) = Some (session_root cs)
       \<and> entry (Close b w) (TmpDir b) = None
       \<and> (\<forall>sid t. find_secret b sid w = Some (secretText t) \<longrightarrow>
             GetSecret b sid (Close b w) = (Inr (Some (TextSecret t)), Close b w))
       \<and> (\<forall>sid u p. find_secret b sid w = Some (secretUserPassword u p) \<longrightarrow>
             GetSecret b sid (Close b w) = (Inr (Some (UserPassword u p)), Close b w))
       \<and> (\<forall>sid u k p q. find_secret b sid w = Some (secretSSHWithPrivate u k p)
               \<and> resolve w (Join (secretFolder b) sid) = Some q
               \<and> strict_prefix (session_root cs) q \<longrightarrow>
             fst (GetSecret b sid (Close b w)) = Inl ErrSecretNotFound)
       \<and> (\<forall>h q. resolve w (Join (stashFolder b) h) = Some q \<and> prefix (session_root cs) q \<longrightarrow>
             Load b h (Close b w) = Inl (PathError ''stat'' (Join (stashFolder b) h) ENOENT))"
proof (intro conjI allI impI)
  fix q assume "prefix (session_root cs) q"
  then show "fs (Close b w) q = None" by (simp add: Close_world[OF assms])
next
  show r: "resolve (Close b w) (TmpDir b) = Some (session_root cs)"
    by (rule NewBanai_resolve(1)[OF assms])
  have "resolve w (TmpDir b) = Some (session_root cs)" by (rule NewBanai_resolve(1)[OF assms])
  then show "entry (Close b w) (TmpDir b) = None"
    by (rule Close_entry_gone[OF assms]) simp
next
  fix sid t assume "find_secret b sid w = Some (secretText t)"
  then have "find_secret b sid (Close b w) = Some (secretText t)"
    by (simp add: Close_find_secret[OF assms])
  then show "GetSecret b sid (Close b w) = (Inr (Some (TextSecret t)), Close b w)"
    by (rule GetSecret_text)
next
  fix sid u p assume "find_secret b sid w = Some (secretUserPassword u p)"
  then have "find_secret b sid (Close b w) = Some (secretUserPassword u p)"
    by (simp add: Close_find_secret[OF assms])
  then show "GetSecret b sid (Close b w) = (Inr (Some (UserPassword u p)), Close b w)"
    by (rule GetSecret_userpass)
next
  fix sid u k p q
  assume a: "find_secret b sid w = Some (secretSSHWithPrivate u k p)
               \<and> resolve w (Join (secretFolder b) sid) = Some q
               \<and> strict_prefix (session_root cs) q"
  then have f: "find_secret b sid (Close b w) = Some (secretSSHWithPrivate u k p)"
    by (simp add: Close_find_secret[OF assms])
  from a have r: "resolve w (Join (secretFolder b) sid) = Some q"
    and s: "strict_prefix (session_root cs) q" by blast+
  have "fst (WriteFile (Join (secretFolder b) sid) k 600 (Close b w))
                 = Some (PathError ''open'' (Join (secretFolder b) sid) ENOENT)"
    by (rule Close_write_fails[OF assms r s])
  then show "fst (GetSecret b sid (Close b w)) = Inl ErrSecretNotFound"
    by (cases "WriteFile (Join (secretFolder b) sid) k 600 (Close b w)")
       (simp add: GetSecret_ssh[OF f])
next
  fix h q
  assume a: "resolve w (Join (stashFolder b) h) = Some q \<and> prefix (session_root cs) q"
  then have r: "resolve w (Join (stashFolder b) h) = Some q"
    and s: "prefix (session_root cs) q" by blast+
  have "entry (Close b w) (Join (stashFolder b) h) = None"
    by (rule Close_entry_gone[OF assms r s])
  then show "Load b h (Close b w) = Inl (PathError ''stat'' (Join (stashFolder b) h) ENOENT)"
    by (simp add: Load_entry)
qed

theorem Close_removes_session_root_witness:
  "NewBanai ex_w0 = (ex_b, ex_w1) \<and> cwd ex_w0 = Some [''w'']
   \<and> fs ex_reg [''w'', ''.banai'', ''sec''] = Some (Dir 448)
   \<and> fs (Close ex_b ex_reg) [''w'', ''.banai'', ''sec''] = None
   \<and> entry (Close ex_b ex_reg) ''/w/.banai'' = None
   \<and> GetSecret ex_b ''tok'' (Close ex_b ex_reg) = (Inr (Some (TextSecret ''s3cr3t'')), Close ex_b ex_reg)
   \<and> GetSecret ex_b ''up'' (Close ex_b ex_reg) = (Inr (Some (UserPassword ''u'' ''p'')), Close ex_b ex_reg)
   \<and> fst (GetSecret ex_b ''a/b'' (Close ex_b ex_reg)) = Inl ErrSecretNotFound
   \<and> Load ex_b ''u1'' (Close ex_b ex_reg) = Inl (PathError ''stat'' ''/w/.banai/stash/u1'' ENOENT)"
proof -
  note t = Close_removes_session_root[OF ex_session ex_w0_cwd, of ex_reg]
  note t1 = t[THEN conjunct1, rule_format]
  note t3 = t[THEN conjunct2, THEN conjunct2, THEN conjunct1]
  note t4 = t[THEN conjunct2, THEN conjunct2, THEN conjunct2, THEN conjunct1, rule_format]
  note t5 = t[THEN conjunct2, THEN conjunct2, THEN conjunct2, THEN conjunct2, THEN conjunct1, rule_format]
  note t6 = t[THEN conjunct2, THEN conjunct2, THEN conjunct2, THEN conjunct2, THEN conjunct2,
              THEN conjunct1, rule_format]
  note t7 = t[THEN conjunct2, THEN conjunct2, THEN conjunct2, THEN conjunct2, THEN conjunct2,
              THEN conjunct2, rule_format]
  have "fs (Close ex_b ex_reg) [''w'', ''.banai'', ''sec''] = None"
    by (rule t1) (simp add: ex_root)
  moreover from t3 have "entry (Close ex_b ex_reg) ''/w/.banai'' = None"
    by (simp add: ex_b_fields)
  moreover have "GetSecret ex_b ''tok'' (Close ex_b ex_reg) = (Inr (Some (TextSecret ''s3cr3t'')), Close ex_b ex_reg)"
    by (rule t4) (simp add: ex_reg_find)
  moreover have "GetSecret ex_b ''up'' (Close ex_b ex_reg) = (Inr (Some (UserPassword ''u'' ''p'')), Close ex_b ex_reg)"
    by (rule t5) (simp add: ex_reg_find)
  moreover have "fst (GetSecret ex_b ''a/b'' (Close ex_b ex_reg)) = Inl ErrSecretNotFound"
    by (rule t6[of _ "''u''" "''KEY''" "''pp''" "[''w'', ''.banai'', ''sec'', ''a'', ''b'']"])
       (simp add: ex_reg_find ex_reg_resolve ex_root)
  moreover have "Load ex_b ''u1'' (Close ex_b ex_reg) = Inl (PathError ''stat'' (Join (stashFolder ex_b) ''u1'') ENOENT)"
    by (rule t7[of _ "[''w'', ''.banai'', ''stash'', ''u1'']"]) (simp add: ex_reg_resolve ex_root)
  ultimately show ?thesis
    by (simp add: ex_session ex_w0_cwd ex_Join_stash ex_reg_def ex_w1_dirs)
qed

text \<open>
  Claim C4. \<open>GetSecret\<close> fails with \<open>ErrSecretNotFound\<close> exactly when nothing is stored
  under the identifier, or the stored secret is the SSH variant and writing its key file
  fails; \<open>ErrSecretNotFound\<close> is the only error it returns, it does not panic, and it
  never returns a nil view without an error.
\<close>

theorem GetSecret_error_kinds:
  "(fst (GetSecret b sid w) = Inl ErrSecretNotFound \<longleftrightarrow>
      find_secret b sid w = None \<or>
      (\<exists>user key pass e.
          find_secret b sid w = Some (secretSSHWithPrivate user key pass) \<and>
          fst (WriteFile (Join (secretFolder b) sid) key 600 w) = Some e))
   \<and> (\<forall>e. fst (GetSecret b sid w) = Inl e \<longrightarrow> e = ErrSecretNotFound)
   \<and> fst (GetSecret b sid w) \<noteq> Inr None"
proof (cases "find_secret b sid w")
  case None
  then show ?thesis by (simp add: GetSecret_missing)
next
  case (Some v)
  show ?thesis
  proof (cases v)
    case (secretText t)
    with Some show ?thesis by (simp add: GetSecret_text)
  next
    case (secretSSHWithPrivate u k p)
    with Some show ?thesis
      by (cases "WriteFile (Join (secretFolder b) sid) k 600 w")
         (auto simp: GetSecret_ssh split: option.splits)
  next
    case (secretUserPassword u p)
    with Some show ?thesis by (simp add: GetSecret_userpass)
  qed
qed

theorem GetSecret_error_kinds_witness:
  "find_secret ex_b ''missing'' ex_reg = None
   \<and> fst (GetSecret ex_b ''missing'' ex_reg) = Inl ErrSecretNotFound
   \<and> find_secret ex_b ''a/b'' ex_reg = Some (secretSSHWithPrivate ''u'' ''KEY'' ''pp'')
   \<and> fst (WriteFile (Join (secretFolder ex_b) ''a/b'') ''KEY'' 600 ex_reg)
        = Some (PathError ''open'' ''/w/.banai/sec/a/b'' ENOENT)
   \<and> fst (GetSecret ex_b ''a/b'' ex_reg) = Inl ErrSecretNotFound
   \<and> find_secret ex_b ''tok'' ex_reg = Some (secretText ''s3cr3t'')
   \<and> fst (GetSecret ex_b ''tok'' ex_reg) \<noteq> Inl ErrSecretNotFound"
  using GetSecret_error_kinds[of ex_b "''missing''" ex_reg]
        GetSecret_error_kinds[of ex_b "''a/b''" ex_reg]
        GetSecret_error_kinds[of ex_b "''tok''" ex_reg]
  by (simp add: ex_reg_find ex_reg_write)

text \<open>
  Claim C5. In a session whose secret map exists, \<open>AddStringSecret\<close> of a text \<open>t\<close>
  under any identifier succeeds, and \<open>GetSecret\<close> of that identifier then succeeds with
  the view \<open>TextSecret t\<close>.
\<close>

theorem AddStringSecret_then_GetSecret:
  assumes "heap w (secrets b) = Some m"
  shows "\<exists>w'. AddStringSecret b sid t w = Inr w' \<and>
               GetSecret b sid w' = (Inr (Some (TextSecret t)), w')"
proof -
  from store_secret_ok[OF assms] obtain w' where
    s: "store_secret b sid (secretText t) w = Inr w'" by blast
  from find_secret_stored[OF s] have "GetSecret b sid w' = (Inr (Some (TextSecret t)), w')"
    by (simp add: GetSecret_text)
  with s show ?thesis by (simp add: AddStringSecret_def)
qed

theorem AddStringSecret_then_GetSecret_witness:
  "heap ex_w1 (secrets ex_b) = Some Map.empty \<and>
   (\<exists>w'. AddStringSecret ex_b ''tok'' ''s3cr3t'' ex_w1 = Inr w' \<and>
         GetSecret ex_b ''tok'' w' = (Inr (Some (TextSecret ''s3cr3t'')), w'))"
  using AddStringSecret_then_GetSecret[of ex_w1 ex_b Map.empty "''tok''" "''s3cr3t''"]
  by (simp add: ex_w1_heap ex_b_fields)

text \<open>
  Claim C6. A later \<open>Add\<close> under an identifier replaces the earlier secret: after
  \<open>AddStringSecret\<close> of \<open>a\<close> and \<open>AddUserPassword\<close> of \<open>u\<close>, \<open>p\<close> under the same
  identifier, the stored value is the user-password secret and \<open>GetSecret\<close> returns the
  view \<open>UserPassword u p\<close>, which has no field of the text variant. More generally,
  whatever the session's map holds, each of the three \<open>Add\<close> methods succeeds and leaves
  exactly the value it was given under the identifier.
\<close>

theorem later_Add_replaces:
  assumes "heap w (secrets b) = Some m"
  shows "(\<exists>w1 w2. AddStringSecret b sid a w = Inr w1 \<and>
                 AddUserPassword b sid u p w1 = Inr w2 \<and>
                 find_secret b sid w2 = Some (secretUserPassword u p) \<and>
                 GetSecret b sid w2 = (Inr (Some (UserPassword u p)), w2))
       \<and> (\<exists>w'. AddStringSecret b sid t w = Inr w' \<and>
                 find_secret b sid w' = Some (secretText t))
       \<and> (\<exists>w'. AddSSHWithPrivate b sid user key pass w = Inr w' \<and>
                 find_secret b sid w' = Some (secretSSHWithPrivate user key pass))
       \<and> (\<exists>w'. AddUserPassword b sid user password w = Inr w' \<and>
                 find_secret b sid w' = Some (secretUserPassword user password))"
proof (intro conjI)
  from store_secret_ok[OF assms] obtain w1 where
    s1: "store_secret b sid (secretText a) w = Inr w1" by blast
  from store_secret_heap[OF s1] obtain m1 where "heap w1 (secrets b) = Some m1" by blast
  from store_secret_ok[OF this] obtain w2 where
    s2: "store_secret b sid (secretUserPassword u p) w1 = Inr w2" by blast
  from find_secret_stored[OF s2] have f: "find_secret b sid w2 = Some (secretUserPassword u p)"
    by simp
  with s1 s2 show "\<exists>w1 w2. AddStringSecret b sid a w = Inr w1 \<and>
                 AddUserPassword b sid u p w1 = Inr w2 \<and>
                 find_secret b sid w2 = Some (secretUserPassword u p) \<and>
                 GetSecret b sid w2 = (Inr (Some (UserPassword u p)), w2)"
    by (simp add: AddStringSecret_def AddUserPassword_def GetSecret_userpass)
next
  from store_secret_ok[OF assms] obtain w' where
    s: "store_secret b sid (secretText t) w = Inr w'" by blast
  from find_secret_stored[OF s] s
  show "\<exists>w'. AddStringSecret b sid t w = Inr w' \<and> find_secret b sid w' = Some (secretText t)"
    by (simp add: AddStringSecret_def)
next
  from store_secret_ok[OF assms] obtain w' where
    s: "store_secret b sid (secretSSHWithPrivate user key pass) w = Inr w'" by blast
  from find_secret_stored[OF s] s
  show "\<exists>w'. AddSSHWithPrivate b sid user key pass w = Inr w' \<and>
             find_secret b sid w' = Some (secretSSHWithPrivate user key pass)"
    by (simp add: AddSSHWithPrivate_def)
next
  from store_secret_ok[OF assms] obtain w' where
    s: "store_secret b sid (secretUserPassword user password) w = Inr w'" by blast
  from find_secret_stored[OF s] s
  show "\<exists>w'. AddUserPassword b sid user password w = Inr w' \<and>
             find_secret b sid w' = Some (secretUserPassword user password)"
    by (simp add: AddUserPassword_def)
qed

theorem later_Add_replaces_witness:
  "heap ex_reg (secrets ex_b) \<noteq> None
   \<and> find_secret ex_b ''tok'' ex_reg = Some (secretText ''s3cr3t'')
   \<and> (\<exists>w1 w2. AddStringSecret ex_b ''tok'' ''a'' ex_reg = Inr w1 \<and>
            AddUserPassword ex_b ''tok'' ''u'' ''p'' w1 = Inr w2 \<and>
            find_secret ex_b ''tok'' w2 = Some (secretUserPassword ''u'' ''p'') \<and>
            GetSecret ex_b ''tok'' w2 = (Inr (Some (UserPassword ''u'' ''p'')), w2))
   \<and> (\<exists>w'. AddSSHWithPrivate ex_b ''tok'' ''u'' ''KEY'' ''pp'' ex_reg = Inr w' \<and>
            find_secret ex_b ''tok'' w' = Some (secretSSHWithPrivate ''u'' ''KEY'' ''pp''))"
proof -
  have h: "heap ex_reg (secrets ex_b) =
             Some [''tok'' \<mapsto> secretText ''s3cr3t'', ''up'' \<mapsto> secretUserPassword ''u'' ''p'',
                   ''a/b'' \<mapsto> secretSSHWithPrivate ''u'' ''KEY'' ''pp'']"
    by (simp add: ex_reg_def ex_b_fields)
  from later_Add_replaces[OF h, of "''tok''" "''a''" "''u''" "''p''" "''t''" "''u''" "''KEY''" "''pp''" "''pw''"]
  show ?thesis by (simp add: h ex_reg_find)
qed





text \<open>
  Claim C9. \<open>AddSSHWithPrivate\<close> leaves the file tree as it was and holds the key in the
  session's map; \<open>GetSecret\<close> of a text or user-password secret returns its view and
  leaves the whole world (file tree and maps) unchanged, so repeating it gives the same
  result.
\<close>

theorem registry_frame:
  "(\<forall>w'. AddSSHWithPrivate b sid user key pass w = Inr w' \<longrightarrow>
          fs w' = fs w \<and> find_secret b sid w' = Some (secretSSHWithPrivate user key pass))
   \<and> (\<forall>t. find_secret b sid w = Some (secretText t) \<longrightarrow>
          GetSecret b sid w = (Inr (Some (TextSecret t)), w))
   \<and> (\<forall>u p. find_secret b sid w = Some (secretUserPassword u p) \<longrightarrow>
          GetSecret b sid w = (Inr (Some (UserPassword u p)), w))"
proof (intro conjI allI impI)
  fix w' assume "AddSSHWithPrivate b sid user key pass w = Inr w'"
  then have s: "store_secret b sid (secretSSHWithPrivate user key pass) w = Inr w'"
    by (simp add: AddSSHWithPrivate_def)
  from find_secret_stored[OF s] show "fs w' = fs w"
    and "find_secret b sid w' = Some (secretSSHWithPrivate user key pass)" by blast+
next
  fix t assume "find_secret b sid w = Some (secretText t)"
  then show "GetSecret b sid w = (Inr (Some (TextSecret t)), w)" by (rule GetSecret_text)
next
  fix u p assume "find_secret b sid w = Some (secretUserPassword u p)"
  then show "GetSecret b sid w = (Inr (Some (UserPassword u p)), w)" by (rule GetSecret_userpass)
qed

theorem registry_frame_witness:
  "AddSSHWithPrivate ex_b ''k'' ''u'' ''KEY'' ''pp'' ex_w1 = Inr ex_w2
   \<and> fs ex_w2 = fs ex_w1
   \<and> find_secret ex_b ''k'' ex_w2 = Some (secretSSHWithPrivate ''u'' ''KEY'' ''pp'')
   \<and> find_secret ex_b ''tok'' ex_reg = Some (secretText ''s3cr3t'')
   \<and> GetSecret ex_b ''tok'' ex_reg = (Inr (Some (TextSecret ''s3cr3t'')), ex_reg)
   \<and> find_secret ex_b ''up'' ex_reg = Some (secretUserPassword ''u'' ''p'')
   \<and> GetSecret ex_b ''up'' ex_reg = (Inr (Some (UserPassword ''u'' ''p'')), ex_reg)"
  using registry_frame[of ex_b "''k''" "''u''" "''KEY''" "''pp''" ex_w1]
        registry_frame[of ex_b "''tok''" "''u''" "''KEY''" "''pp''" ex_reg]
        registry_frame[of ex_b "''up''" "''u''" "''KEY''" "''pp''" ex_reg]
  by (simp add: ex_w2_add ex_reg_find)

text \<open>
  Claim C10. \<open>Load\<close> does not check that its argument was issued by \<open>Save\<close>: for every
  string \<open>h\<close>, a readable regular file at the path joined from the stash folder and \<open>h\<close>
  is returned whole. In a session constructed with a known working directory, the handle
  \<open>../sec/<id>\<close> names the very entry the key file of \<open>id\<close> is written to, so a readable
  key file is returned by \<open>Load\<close>; for a plain \<open>id\<close> that entry lies outside the stash
  folder.
\<close>

theorem Load_takes_any_handle:
  "(\<forall>c m. entry w (Join (stashFolder b) h) = Some (File c m) \<and> may_read w m
          \<longrightarrow> Load b h w = Inr c)
   \<and> (\<forall>w0 w1 cs sid c m.
          NewBanai w0 = (b, w1) \<and> cwd w0 = Some cs
          \<and> entry w (Join (secretFolder b) sid) = Some (File c m) \<and> may_read w m
          \<longrightarrow> Load b (''../sec/'' @ sid) w = Inr c)
   \<and> (\<forall>w0 w1 cs sid.
          NewBanai w0 = (b, w1) \<and> cwd w0 = Some cs \<and> plain sid
          \<longrightarrow> resolve w (Join (stashFolder b) (''../sec/'' @ sid)) = Some (session_root cs @ [''sec'', sid])
            \<and> resolve w (stashFolder b) = Some (session_root cs @ [''stash''])
            \<and> \<not> prefix (session_root cs @ [''stash'']) (session_root cs @ [''sec'', sid]))"
proof (intro conjI allI impI)
  fix c m
  assume "entry w (Join (stashFolder b) h) = Some (File c m) \<and> may_read w m"
  then show "Load b h w = Inr c" by (simp add: Load_entry)
next
  fix w0 w1 cs sid c m
  assume a: "NewBanai w0 = (b, w1) \<and> cwd w0 = Some cs
               \<and> entry w (Join (secretFolder b) sid) = Some (File c m) \<and> may_read w m"
  then have n: "NewBanai w0 = (b, w1)" "cwd w0 = Some cs" by simp_all
  have "entry w (Join (stashFolder b) (''../sec/'' @ sid)) = entry w (Join (secretFolder b) sid)"
    by (simp only: entry_def NewBanai_escape[OF n])
  with a show "Load b (''../sec/'' @ sid) w = Inr c" by (simp add: Load_entry)
next
  fix w0 w1 cs sid
  assume a: "NewBanai w0 = (b, w1) \<and> cwd w0 = Some cs \<and> plain sid"
  then have n: "NewBanai w0 = (b, w1)" "cwd w0 = Some cs" and p: "plain sid" by simp_all
  show "resolve w (Join (stashFolder b) (''../sec/'' @ sid)) = Some (session_root cs @ [''sec'', sid])"
    by (simp only: NewBanai_escape[OF n] NewBanai_key_file_outside(1)[OF n p])
  show "resolve w (stashFolder b) = Some (session_root cs @ [''stash''])"
    by (rule NewBanai_resolve(2)[OF n])
  show "\<not> prefix (session_root cs @ [''stash'']) (session_root cs @ [''sec'', sid])"
    by simp
qed

theorem Load_takes_any_handle_witness:
  "NewBanai ex_w0 = (ex_b, ex_w1) \<and> cwd ex_w0 = Some [''w''] \<and> plain ''k''
   \<and> entry ex_su (Join (secretFolder ex_b) ''k'') = Some (File ''KEY'' 72) \<and> may_read ex_su 72
   \<and> Load ex_b ''../sec/k'' ex_su = Inr ''KEY''
   \<and> resolve ex_su (Join (stashFolder ex_b) ''../sec/k'') = Some [''w'', ''.banai'', ''sec'', ''k'']
   \<and> resolve ex_su (stashFolder ex_b) = Some [''w'', ''.banai'', ''stash'']"
proof -
  note t = Load_takes_any_handle[of ex_su ex_b]
  note t2 = t[THEN conjunct2, THEN conjunct1, rule_format]
  note t3 = t[THEN conjunct2, THEN conjunct2, rule_format]
  have c: "cwd ex_w0 = Some [''w'']" by (simp add: ex_w0_def)
  have p: "plain ''k''" by (simp add: plain_def)
  have "Load ex_b (''../sec/'' @ ''k'') ex_su = Inr ''KEY''"
    by (rule t2[of ex_w0 ex_w1 "[''w'']" "''k''" "''KEY''" 72]) (simp add: ex_session c ex_su_entry)
  moreover have "resolve ex_su (Join (stashFolder ex_b) (''../sec/'' @ ''k'')) = Some (session_root [''w''] @ [''sec'', ''k''])
      \<and> resolve ex_su (stashFolder ex_b) = Some (session_root [''w''] @ [''stash''])
      \<and> \<not> prefix (session_root [''w''] @ [''stash'']) (session_root [''w''] @ [''sec'', ''k''])"
    by (rule t3[of ex_w0 ex_w1]) (simp add: ex_session c p)
  ultimately show ?thesis
    by (simp add: ex_session c p ex_su_entry ex_root)
qed

end
